theory Spec2Isabelle
  imports Complex_Main
begin

section \<open>The host environment\<close>

text \<open>
  The popup controller of \<^verbatim>\<open>class Popup\<close> runs against a browser document. The model
  keeps the part of the host that the class touches: DOM nodes (named by numbers), the
  class token set and the custom properties of every node, the table of registered event
  listeners, the pending timers and the error console.

  Conventions of the model:
  \<^item> numbers are exact rationals; the one division of the source is modelled with the
    infinities and the not-a-number value a division by zero gives; rounding of doubles and
    the negative zero are left out;
  \<^item> selector strings are well-formed selectors and class names are well-formed class
    tokens, so the only host error is a \<^verbatim>\<open>TypeError\<close>: a member access on \<^verbatim>\<open>null\<close> or
    \<^verbatim>\<open>undefined\<close>, or a call of something that is not a function;
  \<^item> a class list is a set of tokens: the class never observes the order of the tokens;
  \<^item> what \<^verbatim>\<open>getBoundingClientRect\<close> answers is an input that comes with each event.
\<close>

type_synonym node = nat

datatype jsval =
    Undefined
  | Null
  | BoolV bool
  | NumV rat
  | StrV string
  | NodeV node
  | ArrV "jsval list"
  | ObjV

fun truthy :: "jsval \<Rightarrow> bool" where
  "truthy Undefined = False"
| "truthy Null = False"
| "truthy (BoolV b) = b"
| "truthy (NumV r) = (r \<noteq> 0)"
| "truthy (StrV s) = (s \<noteq> [])"
| "truthy (NodeV n) = True"
| "truthy (ArrV xs) = True"
| "truthy ObjV = True"

fun isNode :: "jsval \<Rightarrow> bool" where
  "isNode (NodeV n) = True"
| "isNode v = False"

fun isString :: "jsval \<Rightarrow> bool" where
  "isString (StrV s) = True"
| "isString v = False"

text \<open>A timing option is a number or a string, as the \<^verbatim>\<open>Timings\<close> typedef declares.\<close>

datatype timing_val = TNum rat | TStr string

datatype jsnum = Fin rat | PosInf | NegInf | NaN

datatype cssval =
    CssNull
  | CssStr string
  | CssNum jsnum
  | CssPx rat
  | CssPx2 rat rat
  | CssMs rat

record rect =
  rect_x :: rat
  rect_y :: rat
  rect_width :: rat
  rect_height :: rat

definition rect_left :: "rect \<Rightarrow> rat" where
  "rect_left r = min (rect_x r) (rect_x r + rect_width r)"

definition rect_top :: "rect \<Rightarrow> rat" where
  "rect_top r = min (rect_y r) (rect_y r + rect_height r)"

record host =
  querySelectorAll :: "string \<Rightarrow> node list"
  html_root :: node
  toNumber :: "string \<Rightarrow> rat option"
  initial_classes :: "node \<Rightarrow> string set"
  initial_style :: "node \<Rightarrow> string \<Rightarrow> cssval option"

datatype error = TypeError

section \<open>Options\<close>

record selectors =
  sel_opener :: jsval
  sel_container :: jsval
  sel_wrapper :: jsval
  sel_content :: jsval
  sel_closeButton :: jsval

record popup_classes =
  cls_hidden :: jsval
  cls_opening :: jsval
  cls_opened :: jsval
  cls_closing :: jsval

record timing_options =
  openingTime :: "timing_val option"
  closingTime :: "timing_val option"

record options =
  o_selectors :: "selectors option"
  o_classes :: "popup_classes option"
  o_timings :: "timing_options option"
  o_useEscapeToClose :: jsval
  o_containerBackgroundColor :: jsval
  o_setGrabListenerOn :: jsval

section \<open>The fields of the controller\<close>

record nodes =
  opener_node :: "node option"
  container_node :: "node option"
  wrapper_node :: "node option"
  content_node :: "node option"
  closeButton_node :: "node option"
  html_node :: "node option"

record animationClasses =
  hidden_class :: string
  opening_class :: string
  opened_class :: string
  closing_class :: string

record animationTimingFunctions =
  opening_func :: string
  closing_func :: string

record timings =
  opening_time :: rat
  closing_time :: rat

text \<open>
  \<^verbatim>\<open>_grabListenerOn\<close> holds \<^verbatim>\<open>null\<close>, a single node, or something with a
  \<^verbatim>\<open>forEach\<close>: a \<^verbatim>\<open>NodeList\<close> or the array \<^verbatim>\<open>[wrapper]\<close>.
\<close>

datatype grab_target = GNull | GNode node | GList "node list"

record popup =
  nodes :: nodes
  animationClasses :: animationClasses
  animationTimingFunctions :: animationTimingFunctions
  timings :: timings
  backgroundColor :: string
  useEscapeToClose :: jsval
  grabListenerOn :: grab_target
  isMoveEventsAdded :: bool
  isCloseEventAdded :: bool
  isAnimating :: bool

section \<open>The world: controller, DOM state, listeners, timers\<close>

text \<open>The variables that one call of \<^verbatim>\<open>addGrabListener\<close> closes over.\<close>

record grab_scope =
  locked :: bool
  isReturning :: bool
  offset :: "(rat \<times> rat) option"
  initialPosition :: "(rat \<times> rat) option"
  percentage :: jsnum
  grab_rect :: "rect option"

datatype site = OnNode node | OnDocument

datatype evtype = Click | KeyUp | MouseDown | MouseUp | MouseMove

datatype handler =
    OpenClick
  | CloseClick
  | EscapeKey
  | GrabDown nat
  | GrabUp nat
  | GrabMove nat

datatype callback = OpenDone | CloseDone | ReturnDone nat

record listener =
  l_site :: site
  l_type :: evtype
  l_handler :: handler
  l_once :: bool

record world =
  self :: popup
  classList :: "node \<Rightarrow> string set"
  style :: "node \<Rightarrow> string \<Rightarrow> cssval option"
  listeners :: "listener list"
  timers :: "(rat \<times> callback) list"
  clock :: rat
  scopes :: "grab_scope list"
  console_errors :: "string list"
  uncaught :: "error list"

text \<open>
  A method either returns, or throws and leaves the world as it is at the point of the
  throw.
\<close>

datatype result = Done world | Threw error world

fun world_of :: "result \<Rightarrow> world" where
  "world_of (Done w) = w"
| "world_of (Threw e w) = w"

fun returned :: "result \<Rightarrow> bool" where
  "returned (Done w) = True"
| "returned (Threw e w) = False"

fun andThen :: "result \<Rightarrow> (world \<Rightarrow> result) \<Rightarrow> result" where
  "andThen (Done w) f = f w"
| "andThen (Threw e w) f = Threw e w"

text \<open>A member access on a node reference that may be \<^verbatim>\<open>null\<close>.\<close>

fun with_node :: "node option \<Rightarrow> (node \<Rightarrow> world \<Rightarrow> result) \<Rightarrow> world \<Rightarrow> result" where
  "with_node None f w = Threw TypeError w"
| "with_node (Some n) f w = f n w"

definition console_error :: "string \<Rightarrow> world \<Rightarrow> world" where
  "console_error msg w = w\<lparr>console_errors := console_errors w @ [msg]\<rparr>"

definition classList_add :: "node \<Rightarrow> string \<Rightarrow> world \<Rightarrow> world" where
  "classList_add n t w = w\<lparr>classList := (classList w)(n := insert t (classList w n))\<rparr>"

definition classList_remove :: "node \<Rightarrow> string \<Rightarrow> world \<Rightarrow> world" where
  "classList_remove n t w = w\<lparr>classList := (classList w)(n := classList w n - {t})\<rparr>"

definition classList_replace :: "node \<Rightarrow> string \<Rightarrow> string \<Rightarrow> world \<Rightarrow> world" where
  "classList_replace n old new w =
     (if old \<in> classList w n
      then w\<lparr>classList := (classList w)(n := insert new (classList w n - {old}))\<rparr>
      else w)"

text \<open>\<^verbatim>\<open>style.setProperty\<close> with \<^verbatim>\<open>null\<close> removes the property.\<close>

definition setProperty :: "node \<Rightarrow> string \<Rightarrow> cssval \<Rightarrow> world \<Rightarrow> world" where
  "setProperty n name v w =
     w\<lparr>style := (style w)(n := (style w n)(name := (if v = CssNull then None else Some v)))\<rparr>"

fun setNodeCSSProperties :: "node option \<Rightarrow> (string \<times> cssval) list \<Rightarrow> world \<Rightarrow> result" where
  "setNodeCSSProperties node [] w = Done w"
| "setNodeCSSProperties None (p # ps) w = Threw TypeError w"
| "setNodeCSSProperties (Some n) (p # ps) w =
     setNodeCSSProperties (Some n) ps (setProperty n (''--'' @ fst p) (snd p) w)"

definition addEventListener :: "site \<Rightarrow> evtype \<Rightarrow> handler \<Rightarrow> bool \<Rightarrow> world \<Rightarrow> world" where
  "addEventListener s t h once w =
     w\<lparr>listeners := listeners w @ [\<lparr>l_site = s, l_type = t, l_handler = h, l_once = once\<rparr>]\<rparr>"

text \<open>Timers stay ordered by due time; timers due at the same time fire in the order set.\<close>

fun enqueue :: "rat \<times> callback \<Rightarrow> (rat \<times> callback) list \<Rightarrow> (rat \<times> callback) list" where
  "enqueue t [] = [t]"
| "enqueue t (u # us) = (if fst t < fst u then t # u # us else u # enqueue t us)"

definition setTimeout :: "callback \<Rightarrow> rat \<Rightarrow> world \<Rightarrow> world" where
  "setTimeout cb delay w = w\<lparr>timers := enqueue (clock w + max 0 delay, cb) (timers w)\<rparr>"

section \<open>Accessors\<close>

definition selectNode :: "host \<Rightarrow> string \<Rightarrow> node option" where
  "selectNode h selector =
     (if selector = [] then None
      else (case querySelectorAll h selector of [] \<Rightarrow> None | n # ns \<Rightarrow> Some n))"

text \<open>
  The setter \<^verbatim>\<open>nodes\<close> repeats one block per role for a provided value and one block per
  role for the default selector; the two blocks are written once here.
\<close>

definition provided_role ::
  "host \<Rightarrow> jsval \<Rightarrow> string \<Rightarrow> string \<Rightarrow> node option \<times> string list \<Rightarrow> node option \<times> string list" where
  "provided_role h v bad_selector bad_type st =
     (if truthy v then
        (case v of
           NodeV n \<Rightarrow> (Some n, snd st)
         | StrV s \<Rightarrow>
             (case selectNode h s of
                None \<Rightarrow> (fst st, snd st @ [bad_selector])
              | Some n \<Rightarrow> (Some n, snd st))
         | _ \<Rightarrow> (fst st, snd st @ [bad_type]))
      else st)"

definition default_role ::
  "host \<Rightarrow> string \<Rightarrow> string \<Rightarrow> node option \<times> string list \<Rightarrow> node option \<times> string list" where
  "default_role h selector msg st =
     (case fst st of
        Some n \<Rightarrow> st
      | None \<Rightarrow>
          (case selectNode h selector of
             None \<Rightarrow> (None, snd st @ [msg])
           | Some n \<Rightarrow> (Some n, snd st)))"

definition sel_field :: "selectors option \<Rightarrow> (selectors \<Rightarrow> jsval) \<Rightarrow> jsval" where
  "sel_field selectors f = (case selectors of None \<Rightarrow> Undefined | Some s \<Rightarrow> f s)"

definition set_nodes :: "host \<Rightarrow> selectors option \<Rightarrow> world \<Rightarrow> world" where
  "set_nodes h selectors w =
     (let N = nodes (self w);
          op1 = provided_role h (sel_field selectors sel_opener)
                  ''Invalid selector for popup opener''
                  ''Opener is not a valid selector or HTMLElement''
                  (opener_node N, console_errors w);
          co1 = provided_role h (sel_field selectors sel_container)
                  ''Invalid selector for popup container''
                  ''Popup container is not a valid selector or HTMLElement''
                  (container_node N, snd op1);
          wr1 = provided_role h (sel_field selectors sel_wrapper)
                  ''Invalid selector for popup wrapper''
                  ''Popup wrapper is not a valid selector or HTMLElement''
                  (wrapper_node N, snd co1);
          cb1 = provided_role h (sel_field selectors sel_closeButton)
                  ''Invalid selector for popup close button''
                  ''Popup close button is not a valid selector or HTMLElement''
                  (closeButton_node N, snd wr1);
          ct1 = provided_role h (sel_field selectors sel_content)
                  ''Invalid selector for popup content''
                  ''Popup content is not a valid selector or HTMLElement''
                  (content_node N, snd cb1);
          op2 = default_role h ''.popup__opener''
                  ''Unable to select default popup opener'' (fst op1, snd ct1);
          co2 = default_role h ''.popup__container''
                  ''Unable to select default popup container'' (fst co1, snd op2);
          wr2 = default_role h ''.popup__wrapper''
                  ''Unable to select default popup wrapper'' (fst wr1, snd co2);
          ct2 = default_role h ''.popup__content''
                  ''Unable to select default popup content'' (fst ct1, snd wr2);
          cb2 = default_role h ''.popup__close''
                  ''Unable to select default popup close button'' (fst cb1, snd ct2)
      in w\<lparr>self := (self w)\<lparr>nodes :=
              \<lparr>opener_node = fst op2, container_node = fst co2, wrapper_node = fst wr2,
               content_node = fst ct2, closeButton_node = fst cb2,
               html_node = Some (html_root h)\<rparr>\<rparr>,
            console_errors := snd cb2\<rparr>)"

definition class_field :: "jsval \<Rightarrow> string \<Rightarrow> string" where
  "class_field v cur = (case v of StrV s \<Rightarrow> (if s \<noteq> [] then s else cur) | _ \<Rightarrow> cur)"

definition set_classes :: "popup_classes option \<Rightarrow> world \<Rightarrow> world" where
  "set_classes classes w =
     (case classes of
        None \<Rightarrow> w
      | Some c \<Rightarrow>
          (let A = animationClasses (self w)
           in w\<lparr>self := (self w)\<lparr>animationClasses :=
                 \<lparr>hidden_class = class_field (cls_hidden c) (hidden_class A),
                  opening_class = class_field (cls_opening c) (opening_class A),
                  opened_class = class_field (cls_opened c) (opened_class A),
                  closing_class = class_field (cls_closing c) (closing_class A)\<rparr>\<rparr>\<rparr>))"

definition set_useEscapeToClose :: "jsval \<Rightarrow> world \<Rightarrow> world" where
  "set_useEscapeToClose v w =
     (if v \<noteq> Null \<and> v \<noteq> Undefined
      then w\<lparr>self := (self w)\<lparr>useEscapeToClose := v\<rparr>\<rparr>
      else w\<lparr>self := (self w)\<lparr>useEscapeToClose := BoolV True\<rparr>\<rparr>)"

text \<open>
  \<^verbatim>\<open>timings.openingTime && this.isNumber(timings.openingTime)\<close>: the value is truthy and
  both \<^verbatim>\<open>parseFloat\<close> and the subtraction of zero give a number; the stored value is the
  number that the subtraction gives. For a string that number is the host's \<open>toNumber\<close>.
\<close>

definition timing_field :: "host \<Rightarrow> timing_val option \<Rightarrow> rat \<Rightarrow> rat" where
  "timing_field h v cur =
     (case v of
        None \<Rightarrow> cur
      | Some (TNum r) \<Rightarrow> (if r \<noteq> 0 then r else cur)
      | Some (TStr s) \<Rightarrow>
          (if s = [] then cur else (case toNumber h s of None \<Rightarrow> cur | Some r \<Rightarrow> r)))"

definition set_timings :: "host \<Rightarrow> timing_options option \<Rightarrow> world \<Rightarrow> world" where
  "set_timings h t w =
     (case t of
        None \<Rightarrow> w
      | Some t \<Rightarrow>
          (let T = timings (self w)
           in w\<lparr>self := (self w)\<lparr>timings :=
                 \<lparr>opening_time = timing_field h (openingTime t) (opening_time T),
                  closing_time = timing_field h (closingTime t) (closing_time T)\<rparr>\<rparr>\<rparr>))"

definition set_backgroundColor :: "jsval \<Rightarrow> world \<Rightarrow> result" where
  "set_backgroundColor v w =
     (let w1 = (case v of
                  StrV s \<Rightarrow> (if s \<noteq> [] then w\<lparr>self := (self w)\<lparr>backgroundColor := s\<rparr>\<rparr> else w)
                | _ \<Rightarrow> w)
      in setNodeCSSProperties (container_node (nodes (self w1)))
           [(''popup-background'', CssStr (backgroundColor (self w1)))] w1)"

text \<open>The last statement of the setter \<^verbatim>\<open>GrabListenerOn\<close>: the wrapper as the default.\<close>

definition grab_default :: "world \<Rightarrow> world" where
  "grab_default w =
     (if grabListenerOn (self w) = GNull then
        (case wrapper_node (nodes (self w)) of
           Some wr \<Rightarrow> w\<lparr>self := (self w)\<lparr>grabListenerOn := GList [wr]\<rparr>\<rparr>
         | None \<Rightarrow> console_error ''Grab event handlers can not be added'' w)
      else w)"

fun set_GrabListenerOn :: "host \<Rightarrow> jsval \<Rightarrow> world \<Rightarrow> world" where
  "set_GrabListenerOn h (NodeV n) w =
     grab_default (w\<lparr>self := (self w)\<lparr>grabListenerOn := GNode n\<rparr>\<rparr>)"
| "set_GrabListenerOn h (StrV s) w =
     grab_default
       (if s = [] then w
        else (case querySelectorAll h s of
                [] \<Rightarrow> console_error ''Unable to set grab event handlers on passed selector'' w
              | n # ns \<Rightarrow> w\<lparr>self := (self w)\<lparr>grabListenerOn := GList (n # ns)\<rparr>\<rparr>))"
| "set_GrabListenerOn h (ArrV xs) w =
     grab_default (fold (set_GrabListenerOn h) xs w)"
| "set_GrabListenerOn h v w =
     grab_default
       (if truthy v then console_error ''Grab event handler selector is invalid'' w else w)"

section \<open>Methods\<close>

record event =
  e_target :: node
  e_code :: string
  e_clientX :: rat
  e_clientY :: rat
  e_layout :: "node \<Rightarrow> rect"

definition openPopup :: "(node \<Rightarrow> rect) \<Rightarrow> world \<Rightarrow> result" where
  "openPopup lay w =
     (if isAnimating (self w) then Done w
      else
        (let w1 = w\<lparr>self := (self w)\<lparr>isAnimating := True\<rparr>\<rparr>
         in andThen
              (with_node (html_node (nodes (self w1)))
                 (\<lambda>h v. Done (classList_add h ''has-popup'' v)) w1)
              (with_node (opener_node (nodes (self w1)))
                 (\<lambda>opn w2.
                    (let coordinates = lay opn;
                         xTransformOrigin = rect_x coordinates + rect_width coordinates / 2;
                         yTransformOrigin = rect_y coordinates + rect_height coordinates / 2
                     in andThen
                          (with_node (container_node (nodes (self w2)))
                             (\<lambda>c v. Done (classList_replace c
                                       (hidden_class (animationClasses (self v)))
                                       (opening_class (animationClasses (self v))) v)) w2)
                          (\<lambda>w3. andThen
                             (setNodeCSSProperties (container_node (nodes (self w3)))
                                [(''animating-transform-origin'',
                                    CssPx2 xTransformOrigin yTransformOrigin),
                                 (''scale-start'', CssStr ''0''),
                                 (''opening-timing'', CssMs (opening_time (timings (self w3)))),
                                 (''opening-animation-timing-func'',
                                    CssStr (opening_func (animationTimingFunctions (self w3))))]
                                w3)
                             (\<lambda>w4. Done (setTimeout OpenDone
                                             (opening_time (timings (self w4))) w4))))))))"

definition closePopup :: "world \<Rightarrow> result" where
  "closePopup w =
     (if isAnimating (self w) then Done w
      else
        (let w1 = w\<lparr>self := (self w)\<lparr>isAnimating := True\<rparr>\<rparr>
         in andThen
              (with_node (container_node (nodes (self w1)))
                 (\<lambda>c v. Done (classList_replace c
                           (opened_class (animationClasses (self v)))
                           (closing_class (animationClasses (self v))) v)) w1)
              (\<lambda>w2. andThen
                 (setNodeCSSProperties (container_node (nodes (self w2)))
                    [(''scale-end'', CssStr ''0''),
                     (''closing-timing'', CssMs (closing_time (timings (self w2)))),
                     (''closing-animation-timing-func'',
                        CssStr (closing_func (animationTimingFunctions (self w2))))]
                    w2)
                 (\<lambda>w3. Done (setTimeout CloseDone (closing_time (timings (self w3))) w3)))))"

definition addOpenListener :: "world \<Rightarrow> result" where
  "addOpenListener w =
     with_node (opener_node (nodes (self w)))
       (\<lambda>opn v. Done (addEventListener (OnNode opn) Click OpenClick True v)) w"

definition addCloseListener :: "world \<Rightarrow> result" where
  "addCloseListener w =
     andThen
       (with_node (container_node (nodes (self w)))
          (\<lambda>c v. Done (addEventListener (OnNode c) Click CloseClick False v)) w)
       (\<lambda>w1. Done (if truthy (useEscapeToClose (self w1))
                    then addEventListener OnDocument KeyUp EscapeKey False w1
                    else w1))"

text \<open>
  \<^verbatim>\<open>addGrabListener\<close> creates its local variables, sets \<^verbatim>\<open>_isMoveEventsAdded\<close>, and
  calls \<^verbatim>\<open>forEach\<close> on \<^verbatim>\<open>_grabListenerOn\<close>; the \<^verbatim>\<open>mouseup\<close> and \<^verbatim>\<open>mousemove\<close>
  listeners come after that call. The \<^verbatim>\<open>console.log\<close> of the method is left out.
\<close>

definition new_scope :: grab_scope where
  "new_scope =
     \<lparr>locked = False, isReturning = False, offset = None, initialPosition = None,
      percentage = Fin 1, grab_rect = None\<rparr>"

definition addGrabListener :: "world \<Rightarrow> result" where
  "addGrabListener w =
     (let k = length (scopes w);
          w1 = w\<lparr>scopes := scopes w @ [new_scope]\<rparr>;
          w2 = w1\<lparr>self := (self w1)\<lparr>isMoveEventsAdded := True\<rparr>\<rparr>
      in (case grabListenerOn (self w2) of
            GNull \<Rightarrow> Threw TypeError w2
          | GNode n \<Rightarrow> Threw TypeError w2
          | GList ns \<Rightarrow>
              (let w3 = fold (\<lambda>n. addEventListener (OnNode n) MouseDown (GrabDown k) False) ns w2;
                   w4 = addEventListener OnDocument MouseUp (GrabUp k) False w3
               in Done (addEventListener OnDocument MouseMove (GrabMove k) False w4))))"

section \<open>Timer callbacks\<close>

definition openDone :: "world \<Rightarrow> result" where
  "openDone w =
     andThen
       (with_node (container_node (nodes (self w)))
          (\<lambda>c v. Done (classList_replace c
                    (opening_class (animationClasses (self v)))
                    (opened_class (animationClasses (self v))) v)) w)
       (\<lambda>w1. andThen
          (if \<not> isCloseEventAdded (self w1) then addCloseListener w1 else Done w1)
          (\<lambda>w2. andThen
             (if \<not> isMoveEventsAdded (self w2) then addGrabListener w2 else Done w2)
             (\<lambda>w3. Done (w3\<lparr>self := (self w3)\<lparr>isAnimating := False\<rparr>\<rparr>))))"

definition closeDone :: "world \<Rightarrow> result" where
  "closeDone w =
     andThen
       (with_node (container_node (nodes (self w)))
          (\<lambda>c v. Done (classList_replace c
                    (closing_class (animationClasses (self v)))
                    (hidden_class (animationClasses (self v))) v)) w)
       (\<lambda>w1. andThen (addOpenListener w1)
          (\<lambda>w2. andThen
             (with_node (html_node (nodes (self w2)))
                (\<lambda>h v. Done (classList_remove h ''has-popup'' v)) w2)
             (\<lambda>w3. Done (w3\<lparr>self := (self w3)\<lparr>isAnimating := False\<rparr>\<rparr>))))"

definition upd_scope :: "nat \<Rightarrow> (grab_scope \<Rightarrow> grab_scope) \<Rightarrow> world \<Rightarrow> world" where
  "upd_scope k f w = w\<lparr>scopes := (scopes w)[k := f (scopes w ! k)]\<rparr>"

definition returnDone :: "nat \<Rightarrow> world \<Rightarrow> result" where
  "returnDone k w =
     andThen
       (with_node (wrapper_node (nodes (self w)))
          (\<lambda>wr v. Done (classList_remove wr ''popup__wrapper--moving-back'' v)) w)
       (\<lambda>w1. andThen
          (with_node (container_node (nodes (self w1)))
             (\<lambda>c v. Done (classList_remove c ''popup--moving'' v)) w1)
          (\<lambda>w2. Done (upd_scope k (\<lambda>g. g\<lparr>isReturning := False\<rparr>) w2)))"

section \<open>The drag gesture\<close>

definition js_round :: "rat \<Rightarrow> rat" where
  "js_round x = of_int \<lfloor>x + 1 / 2\<rfloor>"

definition js_div :: "rat \<Rightarrow> rat \<Rightarrow> jsnum" where
  "js_div a b =
     (if b \<noteq> 0 then Fin (a / b)
      else if 0 < a then PosInf
      else if a < 0 then NegInf
      else NaN)"

fun js_minus :: "rat \<Rightarrow> jsnum \<Rightarrow> jsnum" where
  "js_minus a (Fin b) = Fin (a - b)"
| "js_minus a PosInf = NegInf"
| "js_minus a NegInf = PosInf"
| "js_minus a NaN = NaN"

fun js_greater :: "jsnum \<Rightarrow> rat \<Rightarrow> bool" where
  "js_greater (Fin a) r = (r < a)"
| "js_greater PosInf r = True"
| "js_greater NegInf r = False"
| "js_greater NaN r = False"

fun js_less :: "jsnum \<Rightarrow> rat \<Rightarrow> bool" where
  "js_less (Fin a) r = (a < r)"
| "js_less PosInf r = False"
| "js_less NegInf r = True"
| "js_less NaN r = False"

fun js_le :: "jsnum \<Rightarrow> rat \<Rightarrow> bool" where
  "js_le (Fin a) r = (a \<le> r)"
| "js_le PosInf r = False"
| "js_le NegInf r = True"
| "js_le NaN r = False"

text \<open>The three assignments to \<^verbatim>\<open>percentage\<close> in the \<^verbatim>\<open>mousemove\<close> listener.\<close>

definition drag_percentage :: "rat \<Rightarrow> rat \<Rightarrow> jsnum" where
  "drag_percentage initialY top' =
     (let p0 = js_minus 1 (js_div (initialY - top') (9 / 2 * initialY));
          p1 = (if js_greater p0 1 then Fin 1 else p0)
      in if js_less p1 (3 / 10) then Fin (3 / 10) else p1)"

definition grab_mousedown :: "nat \<Rightarrow> event \<Rightarrow> world \<Rightarrow> result" where
  "grab_mousedown k ev w =
     (if length (scopes w) \<le> k then Done w
      else if locked (scopes w ! k) \<or> isReturning (scopes w ! k) then Done w
      else
        with_node (wrapper_node (nodes (self w)))
          (\<lambda>wr v.
             (let r = e_layout ev wr;
                  off = (js_round (e_clientX ev - rect_left r),
                         js_round (e_clientY ev - rect_top r));
                  ip = (rect_x r, rect_y r);
                  w1 = upd_scope k (\<lambda>g. g\<lparr>grab_rect := Some r, offset := Some off,
                                           initialPosition := Some ip\<rparr>) v
              in andThen
                   (with_node (container_node (nodes (self w1)))
                      (\<lambda>c u. Done (classList_add c ''popup--moving'' u)) w1)
                   (\<lambda>w2. andThen
                      (setNodeCSSProperties (Some wr)
                         [(''popup-moving-transform-origin'',
                             CssPx2 (e_clientX ev - fst ip) (e_clientY ev - snd ip))] w2)
                      (\<lambda>w3. andThen
                         (setNodeCSSProperties (container_node (nodes (self w3)))
                            [(''popup-moving-transition'', CssNull)] w3)
                         (\<lambda>w4. Done (upd_scope k (\<lambda>g. g\<lparr>locked := True\<rparr>) w4))))))
          w)"

definition grab_mouseup :: "nat \<Rightarrow> event \<Rightarrow> world \<Rightarrow> result" where
  "grab_mouseup k ev w =
     (if length (scopes w) \<le> k then Done w
      else if \<not> locked (scopes w ! k) \<or> isReturning (scopes w ! k) then Done w
      else
        (let w1 = upd_scope k (\<lambda>g. g\<lparr>locked := False, isReturning := True\<rparr>) w
         in andThen
              (with_node (wrapper_node (nodes (self w1)))
                 (\<lambda>wr v. Done (classList_replace wr ''popup__wrapper--moving''
                                 ''popup__wrapper--moving-back'' v)) w1)
              (\<lambda>w2.
                 (case initialPosition (scopes w2 ! k) of
                    None \<Rightarrow> Threw TypeError w2
                  | Some ip \<Rightarrow>
                      andThen
                        (setNodeCSSProperties (wrapper_node (nodes (self w2)))
                           [(''popup-moving-back-transition'', CssStr ''all .5s''),
                            (''popup-moving-back-left'', CssPx (fst ip)),
                            (''popup-moving-back-top'', CssPx (snd ip))] w2)
                        (\<lambda>w3. andThen
                           (setNodeCSSProperties (container_node (nodes (self w3)))
                              [(''popup-moving-opacity'', CssNull),
                               (''popup-moving-transition'', CssStr ''all .5s'')] w3)
                           (\<lambda>w4.
                              (let w5 = setTimeout (ReturnDone k) 500 w4
                               in if js_le (percentage (scopes w5 ! k)) (7 / 10)
                                  then closePopup w5
                                  else Done w5)))))))"

definition grab_mousemove :: "nat \<Rightarrow> event \<Rightarrow> world \<Rightarrow> result" where
  "grab_mousemove k ev w =
     (if length (scopes w) \<le> k then Done w
      else if \<not> locked (scopes w ! k) \<or> isReturning (scopes w ! k) then Done w
      else
        (case offset (scopes w ! k) of
           None \<Rightarrow> Threw TypeError w
         | Some off \<Rightarrow>
             (let top' = e_clientY ev - snd off
              in (case initialPosition (scopes w ! k) of
                    None \<Rightarrow> Threw TypeError w
                  | Some ip \<Rightarrow>
                      (if \<bar>top' - snd ip\<bar> < 10 then Done w
                       else
                         (let pc = drag_percentage (snd ip) top';
                              w1 = upd_scope k (\<lambda>g. g\<lparr>percentage := pc\<rparr>) w
                          in andThen
                               (with_node (wrapper_node (nodes (self w1)))
                                  (\<lambda>wr v. Done (classList_add wr ''popup__wrapper--moving'' v))
                                  w1)
                               (\<lambda>w2. andThen
                                  (setNodeCSSProperties (wrapper_node (nodes (self w2)))
                                     [(''popup-moving-top'', CssPx top'),
                                      (''popup-moving-left'', CssPx (e_clientX ev - fst off)),
                                      (''popup-moving-scale'', CssNum pc)] w2)
                                  (\<lambda>w3. setNodeCSSProperties
                                            (container_node (nodes (self w3)))
                                            [(''popup-moving-opacity'', CssNum pc)] w3))))))))"

section \<open>Event dispatch and time\<close>

definition close_click :: "event \<Rightarrow> world \<Rightarrow> result" where
  "close_click ev w =
     (if content_node (nodes (self w)) \<noteq> Some (e_target ev) then Done w
      else closePopup w)"

definition escape_keyup :: "event \<Rightarrow> world \<Rightarrow> result" where
  "escape_keyup ev w = (if e_code ev = ''Escape'' then closePopup w else Done w)"

fun run_handler :: "handler \<Rightarrow> event \<Rightarrow> world \<Rightarrow> result" where
  "run_handler OpenClick ev w = openPopup (e_layout ev) w"
| "run_handler CloseClick ev w = close_click ev w"
| "run_handler EscapeKey ev w = escape_keyup ev w"
| "run_handler (GrabDown k) ev w = grab_mousedown k ev w"
| "run_handler (GrabUp k) ev w = grab_mouseup k ev w"
| "run_handler (GrabMove k) ev w = grab_mousemove k ev w"

fun run_callback :: "callback \<Rightarrow> world \<Rightarrow> result" where
  "run_callback OpenDone w = openDone w"
| "run_callback CloseDone w = closeDone w"
| "run_callback (ReturnDone k) w = returnDone k w"

text \<open>
  An exception that leaves a listener or a timer callback is reported by the host; the
  other listeners of the event still run.
\<close>

fun absorb :: "result \<Rightarrow> world" where
  "absorb (Done w) = w"
| "absorb (Threw e w) = w\<lparr>uncaught := uncaught w @ [e]\<rparr>"

definition hears :: "site \<Rightarrow> evtype \<Rightarrow> listener \<Rightarrow> bool" where
  "hears s t l = (l_site l = s \<and> l_type l = t)"

text \<open>
  An event of type \<open>t\<close> arriving at \<open>s\<close> runs the listeners registered there for \<open>t\<close>, in
  the order of registration; a listener registered with \<^verbatim>\<open>once\<close> is removed when it runs.
\<close>

definition dispatch :: "site \<Rightarrow> evtype \<Rightarrow> event \<Rightarrow> world \<Rightarrow> world" where
  "dispatch s t ev w =
     fold (\<lambda>l v. absorb (run_handler (l_handler l) ev v))
       (filter (hears s t) (listeners w))
       (w\<lparr>listeners := filter (\<lambda>l. \<not> (hears s t l \<and> l_once l)) (listeners w)\<rparr>)"

definition elapse :: "rat \<Rightarrow> world \<Rightarrow> world" where
  "elapse d w =
     (if d < 0 then w
      else
        fold (\<lambda>x v. absorb (run_callback (snd x) v))
          (takeWhile (\<lambda>x. fst x \<le> clock w + d) (timers w))
          (w\<lparr>clock := clock w + d,
             timers := dropWhile (\<lambda>x. fst x \<le> clock w + d) (timers w)\<rparr>))"

datatype input = Dispatch site evtype event | Elapse rat

fun step :: "input \<Rightarrow> world \<Rightarrow> world" where
  "step (Dispatch s t ev) w = dispatch s t ev w"
| "step (Elapse d) w = elapse d w"

definition run :: "input list \<Rightarrow> world \<Rightarrow> world" where
  "run ins w = fold step ins w"

section \<open>Construction\<close>

definition new_popup :: popup where
  "new_popup =
     \<lparr>nodes = \<lparr>opener_node = None, container_node = None, wrapper_node = None,
               content_node = None, closeButton_node = None, html_node = None\<rparr>,
      animationClasses = \<lparr>hidden_class = ''popup--hidden'', opening_class = ''popup--opening'',
                          opened_class = ''popup--opened'', closing_class = ''popup--closing''\<rparr>,
      animationTimingFunctions = \<lparr>opening_func = ''cubic-bezier(.44,1.29,.55,1.15)'',
                                  closing_func = ''ease''\<rparr>,
      timings = \<lparr>opening_time = 500, closing_time = 500\<rparr>,
      backgroundColor = ''rgba(0,0,0,0.5)'',
      useEscapeToClose = BoolV True,
      grabListenerOn = GNull,
      isMoveEventsAdded = False,
      isCloseEventAdded = False,
      isAnimating = False\<rparr>"

definition page :: "host \<Rightarrow> world" where
  "page h =
     \<lparr>self = new_popup, classList = initial_classes h, style = initial_style h,
      listeners = [], timers = [], clock = 0, scopes = [], console_errors = [],
      uncaught = []\<rparr>"

text \<open>\<^verbatim>\<open>options?.field\<close>: \<^verbatim>\<open>undefined\<close> when there are no options.\<close>

definition opt_val :: "options option \<Rightarrow> (options \<Rightarrow> jsval) \<Rightarrow> jsval" where
  "opt_val opts f = (case opts of None \<Rightarrow> Undefined | Some x \<Rightarrow> f x)"

definition opt_obj :: "options option \<Rightarrow> (options \<Rightarrow> 'a option) \<Rightarrow> 'a option" where
  "opt_obj opts f = (case opts of None \<Rightarrow> None | Some x \<Rightarrow> f x)"

definition configure :: "host \<Rightarrow> options option \<Rightarrow> world" where
  "configure h opts =
     set_useEscapeToClose (opt_val opts o_useEscapeToClose)
       (set_timings h (opt_obj opts o_timings)
          (set_nodes h (opt_obj opts o_selectors)
             (set_classes (opt_obj opts o_classes) (page h))))"

definition constructor :: "host \<Rightarrow> options option \<Rightarrow> result" where
  "constructor h opts =
     andThen (set_backgroundColor (opt_val opts o_containerBackgroundColor) (configure h opts))
       (\<lambda>w1.
          (let w2 = set_GrabListenerOn h (opt_val opts o_setGrabListenerOn) w1
           in andThen
                (with_node (container_node (nodes (self w2)))
                   (\<lambda>c v. Done (classList_add c (hidden_class (animationClasses (self v))) v))
                   w2)
                addOpenListener))"

section \<open>A sample page\<close>

text \<open>
  A document with one element for each default selector: the opener is node 1, the
  container 2, the wrapper 3, the content 4, the close button 5, the root element 0. The
  wrapper is laid out at (100, 40) and is 300 wide and 400 high.
\<close>

definition demo_host :: host where
  "demo_host =
     \<lparr>querySelectorAll =
        (\<lambda>s. if s = ''.popup__opener'' then [1]
             else if s = ''.popup__container'' then [2]
             else if s = ''.popup__wrapper'' then [3]
             else if s = ''.popup__content'' then [4]
             else if s = ''.popup__close'' then [5]
             else []),
      html_root = 0,
      toNumber = (\<lambda>s. None),
      initial_classes = (\<lambda>n. {}),
      initial_style = (\<lambda>n s. None)\<rparr>"

definition demo_layout :: "node \<Rightarrow> rect" where
  "demo_layout n = \<lparr>rect_x = 100, rect_y = 40, rect_width = 300, rect_height = 400\<rparr>"

definition demo_event :: "node \<Rightarrow> string \<Rightarrow> rat \<Rightarrow> rat \<Rightarrow> event" where
  "demo_event t c x y =
     \<lparr>e_target = t, e_code = c, e_clientX = x, e_clientY = y, e_layout = demo_layout\<rparr>"

definition click_opener :: input where
  "click_opener = Dispatch (OnNode 1) Click (demo_event 1 [] 110 50)"

definition click_content :: input where
  "click_content = Dispatch (OnNode 2) Click (demo_event 4 [] 20 20)"

definition click_container :: input where
  "click_container = Dispatch (OnNode 2) Click (demo_event 2 [] 20 20)"

definition press_escape :: input where
  "press_escape = Dispatch OnDocument KeyUp (demo_event 0 ''Escape'' 0 0)"

definition down_on_wrapper :: input where
  "down_on_wrapper = Dispatch (OnNode 3) MouseDown (demo_event 3 [] 150 240)"

definition move_up :: input where
  "move_up = Dispatch OnDocument MouseMove (demo_event 3 [] 150 140)"

definition release :: input where
  "release = Dispatch OnDocument MouseUp (demo_event 3 [] 150 140)"

definition demo_start :: world where
  "demo_start = world_of (constructor demo_host None)"

definition demo_opening :: world where
  "demo_opening = run [click_opener] demo_start"

definition demo_opened :: world where
  "demo_opened = run [click_opener, Elapse 500] demo_start"


section \<open>Vocabulary of the properties\<close>

text \<open>
  How a role is resolved, in the words of the description of the constructor: from a
  provided node, else from a provided selector string, else from the default selector.
\<close>

definition resolve_role :: "host \<Rightarrow> jsval \<Rightarrow> string \<Rightarrow> node option" where
  "resolve_role h v dflt =
     (case v of
        NodeV n \<Rightarrow> Some n
      | StrV s \<Rightarrow> (case selectNode h s of Some n \<Rightarrow> Some n | None \<Rightarrow> selectNode h dflt)
      | _ \<Rightarrow> selectNode h dflt)"

text \<open>Two worlds that differ at most in custom properties, console, colour and grab target.\<close>

definition same_core :: "world \<Rightarrow> world \<Rightarrow> bool" where
  "same_core w w' =
     (classList w' = classList w \<and> listeners w' = listeners w \<and>
      timers w' = timers w \<and> clock w' = clock w \<and> scopes w' = scopes w \<and>
      uncaught w' = uncaught w \<and>
      nodes (self w') = nodes (self w) \<and>
      animationClasses (self w') = animationClasses (self w) \<and>
      animationTimingFunctions (self w') = animationTimingFunctions (self w) \<and>
      timings (self w') = timings (self w) \<and>
      useEscapeToClose (self w') = useEscapeToClose (self w) \<and>
      isMoveEventsAdded (self w') = isMoveEventsAdded (self w) \<and>
      isCloseEventAdded (self w') = isCloseEventAdded (self w) \<and>
      isAnimating (self w') = isAnimating (self w))"

text \<open>Two worlds that differ at most in the configuration fields of the controller.\<close>

definition same_runtime :: "world \<Rightarrow> world \<Rightarrow> bool" where
  "same_runtime w w' =
     (classList w' = classList w \<and> style w' = style w \<and> listeners w' = listeners w \<and>
      timers w' = timers w \<and> clock w' = clock w \<and> scopes w' = scopes w \<and>
      uncaught w' = uncaught w \<and>
      grabListenerOn (self w') = grabListenerOn (self w) \<and>
      isMoveEventsAdded (self w') = isMoveEventsAdded (self w) \<and>
      isCloseEventAdded (self w') = isCloseEventAdded (self w) \<and>
      isAnimating (self w') = isAnimating (self w))"

definition state_classes :: "animationClasses \<Rightarrow> string set" where
  "state_classes A = {hidden_class A, opening_class A, opened_class A, closing_class A}"

definition marker_classes :: "string set" where
  "marker_classes =
     {''has-popup'', ''popup--moving'', ''popup__wrapper--moving'',
      ''popup__wrapper--moving-back''}"


definition keeps :: "node \<Rightarrow> animationClasses \<Rightarrow> world \<Rightarrow> bool" where
  "keeps c A w =
     (container_node (nodes (self w)) = Some c \<and> animationClasses (self w) = A \<and>
      marker_classes \<inter> state_classes A = {} \<and>
      (\<exists>s. classList w c \<inter> state_classes A = {s}))"

definition keepsr :: "node \<Rightarrow> animationClasses \<Rightarrow> result \<Rightarrow> bool" where
  "keepsr c A r = keeps c A (world_of r)"





text \<open>
  Where a grab option can leave working drag triggers: with a selector
  string matching at least one element, a list, or the grab target left at the wrapper
  default.
\<close>

definition at_wrapper_default :: "world \<Rightarrow> bool" where
  "at_wrapper_default w =
     (case wrapper_node (nodes (self w)) of
        None \<Rightarrow> False
      | Some wr \<Rightarrow> grabListenerOn (self w) = GList [wr])"

definition grab_option_usable :: "host \<Rightarrow> jsval \<Rightarrow> world \<Rightarrow> bool" where
  "grab_option_usable h v w =
     (case v of
        NodeV n \<Rightarrow> False
      | StrV s \<Rightarrow> querySelectorAll h s \<noteq> [] \<or> at_wrapper_default w
      | ArrV xs \<Rightarrow> True
      | _ \<Rightarrow> at_wrapper_default w)"

definition grab_listeners :: "world \<Rightarrow> listener list" where
  "grab_listeners w =
     filter (\<lambda>l. l_type l = MouseDown \<or> l_type l = MouseUp \<or> l_type l = MouseMove)
       (listeners w)"

definition demo_host_img :: host where
  "demo_host_img =
     demo_host\<lparr>querySelectorAll :=
       (\<lambda>s. if s = ''img'' then [7, 8] else querySelectorAll demo_host s)\<rparr>"

definition grab_on :: "jsval \<Rightarrow> options" where
  "grab_on v =
     \<lparr>o_selectors = None, o_classes = None, o_timings = None, o_useEscapeToClose = Undefined,
      o_containerBackgroundColor = Undefined, o_setGrabListenerOn = v\<rparr>"

definition demo_dragged :: world where
  "demo_dragged = run [click_opener, Elapse 500, down_on_wrapper, move_up] demo_start"

section \<open>Properties\<close>

lemmas prims = classList_add_def classList_remove_def classList_replace_def setProperty_def
  addEventListener_def setTimeout_def console_error_def upd_scope_def

subsection \<open>What the primitive operations leave alone\<close>

lemma console_error_frame [simp]:
  "self (console_error m w) = self w"
  "classList (console_error m w) = classList w"
  "style (console_error m w) = style w"
  "listeners (console_error m w) = listeners w"
  "timers (console_error m w) = timers w"
  "clock (console_error m w) = clock w"
  "scopes (console_error m w) = scopes w"
  "uncaught (console_error m w) = uncaught w"
  by (simp_all add: console_error_def)

lemma classList_add_frame [simp]:
  "self (classList_add n t w) = self w"
  "style (classList_add n t w) = style w"
  "listeners (classList_add n t w) = listeners w"
  "timers (classList_add n t w) = timers w"
  "clock (classList_add n t w) = clock w"
  "scopes (classList_add n t w) = scopes w"
  "console_errors (classList_add n t w) = console_errors w"
  "uncaught (classList_add n t w) = uncaught w"
  by (simp_all add: classList_add_def)

lemma classList_remove_frame [simp]:
  "self (classList_remove n t w) = self w"
  "style (classList_remove n t w) = style w"
  "listeners (classList_remove n t w) = listeners w"
  "timers (classList_remove n t w) = timers w"
  "clock (classList_remove n t w) = clock w"
  "scopes (classList_remove n t w) = scopes w"
  "console_errors (classList_remove n t w) = console_errors w"
  "uncaught (classList_remove n t w) = uncaught w"
  by (simp_all add: classList_remove_def)

lemma classList_replace_frame [simp]:
  "self (classList_replace n a b w) = self w"
  "style (classList_replace n a b w) = style w"
  "listeners (classList_replace n a b w) = listeners w"
  "timers (classList_replace n a b w) = timers w"
  "clock (classList_replace n a b w) = clock w"
  "scopes (classList_replace n a b w) = scopes w"
  "console_errors (classList_replace n a b w) = console_errors w"
  "uncaught (classList_replace n a b w) = uncaught w"
  by (simp_all add: classList_replace_def)

lemma setProperty_frame [simp]:
  "self (setProperty n k v w) = self w"
  "classList (setProperty n k v w) = classList w"
  "listeners (setProperty n k v w) = listeners w"
  "timers (setProperty n k v w) = timers w"
  "clock (setProperty n k v w) = clock w"
  "scopes (setProperty n k v w) = scopes w"
  "console_errors (setProperty n k v w) = console_errors w"
  "uncaught (setProperty n k v w) = uncaught w"
  by (simp_all add: setProperty_def)

lemma addEventListener_frame [simp]:
  "self (addEventListener s t h b w) = self w"
  "classList (addEventListener s t h b w) = classList w"
  "style (addEventListener s t h b w) = style w"
  "timers (addEventListener s t h b w) = timers w"
  "clock (addEventListener s t h b w) = clock w"
  "scopes (addEventListener s t h b w) = scopes w"
  "console_errors (addEventListener s t h b w) = console_errors w"
  "uncaught (addEventListener s t h b w) = uncaught w"
  by (simp_all add: addEventListener_def)

lemma setTimeout_frame [simp]:
  "self (setTimeout cb d w) = self w"
  "classList (setTimeout cb d w) = classList w"
  "style (setTimeout cb d w) = style w"
  "listeners (setTimeout cb d w) = listeners w"
  "clock (setTimeout cb d w) = clock w"
  "scopes (setTimeout cb d w) = scopes w"
  "console_errors (setTimeout cb d w) = console_errors w"
  "uncaught (setTimeout cb d w) = uncaught w"
  by (simp_all add: setTimeout_def)

lemma upd_scope_frame [simp]:
  "self (upd_scope k f w) = self w"
  "classList (upd_scope k f w) = classList w"
  "style (upd_scope k f w) = style w"
  "listeners (upd_scope k f w) = listeners w"
  "timers (upd_scope k f w) = timers w"
  "clock (upd_scope k f w) = clock w"
  "console_errors (upd_scope k f w) = console_errors w"
  "uncaught (upd_scope k f w) = uncaught w"
  by (simp_all add: upd_scope_def)

lemma changed_field [simp]:
  "console_errors (console_error m w) = console_errors w @ [m]"
  "listeners (addEventListener s t h b w) =
     listeners w @ [\<lparr>l_site = s, l_type = t, l_handler = h, l_once = b\<rparr>]"
  "timers (setTimeout cb d w) = enqueue (clock w + max 0 d, cb) (timers w)"
  "scopes (upd_scope k f w) = (scopes w)[k := f (scopes w ! k)]"
  by (simp_all add: prims)

subsection \<open>The re-entrancy guard\<close>

text \<open>
  C7. While \<^verbatim>\<open>_isAnimating\<close> is set, \<^verbatim>\<open>openPopup\<close> and \<^verbatim>\<open>closePopup\<close> return at
  once and give back the world they were given: classes, custom properties, flags,
  listeners and pending timers are all as before, and nothing records the request. The
  same holds for the three listeners that make such a request: the click on the opener,
  the click on the container and the key release.
\<close>

theorem reentrancy_guard:
  "isAnimating (self w) \<Longrightarrow>
     openPopup lay w = Done w \<and> closePopup w = Done w \<and>
     run_handler OpenClick ev w = Done w \<and>
     run_handler CloseClick ev w = Done w \<and>
     run_handler EscapeKey ev w = Done w"
  by (simp add: openPopup_def closePopup_def close_click_def escape_keyup_def)

theorem reentrancy_guard_witness:
  "isAnimating (self demo_opening) \<and>
   openPopup demo_layout demo_opening = Done demo_opening \<and>
   closePopup demo_opening = Done demo_opening \<and>
   run_handler OpenClick (demo_event 1 [] 110 50) demo_opening = Done demo_opening \<and>
   run_handler CloseClick (demo_event 4 [] 20 20) demo_opening = Done demo_opening \<and>
   run_handler EscapeKey (demo_event 0 ''Escape'' 0 0) demo_opening = Done demo_opening"
proof -
  have h: "isAnimating (self demo_opening)" by code_simp
  show ?thesis
    using h reentrancy_guard [OF h, of demo_layout "demo_event 1 [] 110 50"]
      reentrancy_guard [OF h, of demo_layout "demo_event 4 [] 20 20"]
      reentrancy_guard [OF h, of demo_layout "demo_event 0 ''Escape'' 0 0"]
    by simp
qed

subsection \<open>The drag percentage\<close>




subsection \<open>Construction\<close>

lemma same_core_refl: "same_core w w"
  by (simp add: same_core_def)

lemma same_core_trans:
  "same_core w w' \<Longrightarrow> same_core w' w'' \<Longrightarrow> same_core w w''"
  by (simp add: same_core_def)

lemma grab_default_frame: "same_core w (grab_default w)"
  by (simp add: same_core_def grab_default_def console_error_def split: option.splits)

lemma same_core_upd:
  "same_core w (w\<lparr>self := (self w)\<lparr>grabListenerOn := g\<rparr>\<rparr>)"
  by (simp add: same_core_def)

lemma same_core_err: "same_core w (console_error m w)"
  by (simp add: same_core_def console_error_def)

lemma fold_same_core:
  "(\<And>x v. x \<in> set xs \<Longrightarrow> same_core v (f x v)) \<Longrightarrow> same_core w (fold f xs w)"
proof (induction xs arbitrary: w)
  case Nil
  show ?case by (simp add: same_core_refl)
next
  case (Cons x xs)
  have "same_core w (f x w)" using Cons.prems by simp
  moreover have "same_core (f x w) (fold f xs (f x w))"
    using Cons.IH Cons.prems by simp
  ultimately show ?case using same_core_trans by simp
qed

lemma set_GrabListenerOn_frame: "same_core w (set_GrabListenerOn h v w)"
proof (induction h v w rule: set_GrabListenerOn.induct)
  case (1 h n w)
  show ?case
    using same_core_trans [OF same_core_upd grab_default_frame] by simp
next
  case (2 h s w)
  show ?case
    by (auto simp: same_core_refl split: list.splits
        intro: same_core_trans [OF same_core_upd grab_default_frame]
               same_core_trans [OF same_core_err grab_default_frame]
               same_core_trans [OF same_core_refl grab_default_frame])
next
  case (3 h xs w)
  have "same_core w (fold (set_GrabListenerOn h) xs w)"
    using "3.IH" by (rule fold_same_core)
  then show ?case
    using same_core_trans [OF _ grab_default_frame] by simp
qed (auto intro: same_core_trans [OF same_core_err grab_default_frame] grab_default_frame)

lemma resolve_provided_default:
  "fst (default_role h d m (fst (provided_role h v a b (None, e)), e')) = resolve_role h v d"
  by (cases v)
     (simp_all add: default_role_def provided_role_def resolve_role_def selectNode_def
        split: option.splits list.splits)

lemma set_nodes_roles:
  assumes "nodes (self w) = nodes new_popup"
  shows "opener_node (nodes (self (set_nodes h sel w))) =
           resolve_role h (sel_field sel sel_opener) ''.popup__opener''"
    and "container_node (nodes (self (set_nodes h sel w))) =
           resolve_role h (sel_field sel sel_container) ''.popup__container''"
    and "wrapper_node (nodes (self (set_nodes h sel w))) =
           resolve_role h (sel_field sel sel_wrapper) ''.popup__wrapper''"
    and "content_node (nodes (self (set_nodes h sel w))) =
           resolve_role h (sel_field sel sel_content) ''.popup__content''"
    and "closeButton_node (nodes (self (set_nodes h sel w))) =
           resolve_role h (sel_field sel sel_closeButton) ''.popup__close''"
    and "html_node (nodes (self (set_nodes h sel w))) = Some (html_root h)"
  using assms
  by (simp_all add: set_nodes_def Let_def new_popup_def resolve_provided_default)

lemma same_runtime_trans:
  "same_runtime w w' \<Longrightarrow> same_runtime w' w'' \<Longrightarrow> same_runtime w w''"
  by (simp add: same_runtime_def)

lemma set_classes_runtime: "same_runtime w (set_classes c w)"
  by (simp add: same_runtime_def set_classes_def Let_def split: option.splits)


lemma set_nodes_runtime: "same_runtime w (set_nodes h s w)"
  by (simp add: same_runtime_def set_nodes_def Let_def)

lemma set_nodes_classes:
  "animationClasses (self (set_nodes h s w)) = animationClasses (self w)"
  by (simp add: set_nodes_def Let_def)

lemma set_timings_runtime: "same_runtime w (set_timings h t w)"
  by (simp add: same_runtime_def set_timings_def Let_def split: option.splits)


lemma set_useEscapeToClose_runtime: "same_runtime w (set_useEscapeToClose v w)"
  by (simp add: same_runtime_def set_useEscapeToClose_def)


lemma configure_runtime: "same_runtime (page h) (configure h opts)"
  unfolding configure_def
  by (rule same_runtime_trans [OF same_runtime_trans [OF same_runtime_trans
        [OF set_classes_runtime set_nodes_runtime] set_timings_runtime]
        set_useEscapeToClose_runtime])

lemma configure_world:
  "classList (configure h opts) = initial_classes h"
  "style (configure h opts) = initial_style h"
  "listeners (configure h opts) = []"
  "timers (configure h opts) = []"
  "clock (configure h opts) = 0"
  "scopes (configure h opts) = []"
  "uncaught (configure h opts) = []"
  "isAnimating (self (configure h opts)) = False"
  "isMoveEventsAdded (self (configure h opts)) = False"
  "isCloseEventAdded (self (configure h opts)) = False"
  "grabListenerOn (self (configure h opts)) = GNull"
  using configure_runtime [of h opts]
  by (simp_all add: same_runtime_def page_def new_popup_def)

lemma configure_nodes:
  "opener_node (nodes (self (configure h opts))) =
     resolve_role h (sel_field (opt_obj opts o_selectors) sel_opener) ''.popup__opener''"
  "container_node (nodes (self (configure h opts))) =
     resolve_role h (sel_field (opt_obj opts o_selectors) sel_container) ''.popup__container''"
  "wrapper_node (nodes (self (configure h opts))) =
     resolve_role h (sel_field (opt_obj opts o_selectors) sel_wrapper) ''.popup__wrapper''"
  "content_node (nodes (self (configure h opts))) =
     resolve_role h (sel_field (opt_obj opts o_selectors) sel_content) ''.popup__content''"
  "html_node (nodes (self (configure h opts))) = Some (html_root h)"
proof -
  let ?w = "set_classes (opt_obj opts o_classes) (page h)"
  have n: "nodes (self ?w) = nodes new_popup"
    by (simp add: set_classes_def page_def Let_def split: option.splits)
  have c: "nodes (self (configure h opts)) = nodes (self (set_nodes h (opt_obj opts o_selectors) ?w))"
    by (simp add: configure_def set_useEscapeToClose_def set_timings_def Let_def
          split: option.splits)
  show "opener_node (nodes (self (configure h opts))) =
     resolve_role h (sel_field (opt_obj opts o_selectors) sel_opener) ''.popup__opener''"
    "container_node (nodes (self (configure h opts))) =
     resolve_role h (sel_field (opt_obj opts o_selectors) sel_container) ''.popup__container''"
    "wrapper_node (nodes (self (configure h opts))) =
     resolve_role h (sel_field (opt_obj opts o_selectors) sel_wrapper) ''.popup__wrapper''"
    "content_node (nodes (self (configure h opts))) =
     resolve_role h (sel_field (opt_obj opts o_selectors) sel_content) ''.popup__content''"
    "html_node (nodes (self (configure h opts))) = Some (html_root h)"
    by (simp_all add: c set_nodes_roles [OF n])
qed




lemma set_backgroundColor_None:
  "container_node (nodes (self w)) = None \<Longrightarrow> \<exists>w'. set_backgroundColor v w = Threw TypeError w'"
  by (cases v) (simp_all add: set_backgroundColor_def)

lemma set_backgroundColor_Some:
  "container_node (nodes (self w)) = Some c \<Longrightarrow>
     \<exists>w'. set_backgroundColor v w = Done w' \<and> same_core w w' \<and>
          grabListenerOn (self w') = grabListenerOn (self w)"
  by (cases v) (simp_all add: set_backgroundColor_def same_core_def setProperty_def)

lemma constructor_Threw:
  assumes "container_node (nodes (self (configure h opts))) = None \<or>
           opener_node (nodes (self (configure h opts))) = None"
  shows "\<exists>w. constructor h opts = Threw TypeError w"
proof (cases "container_node (nodes (self (configure h opts)))")
  case None
  from set_backgroundColor_None [OF None]
  obtain w' where "set_backgroundColor (opt_val opts o_containerBackgroundColor)
                     (configure h opts) = Threw TypeError w'"
    by blast
  then show ?thesis by (simp add: constructor_def)
next
  case (Some c)
  with assms have op: "opener_node (nodes (self (configure h opts))) = None" by simp
  from set_backgroundColor_Some [OF Some]
  obtain w1 where w1: "set_backgroundColor (opt_val opts o_containerBackgroundColor)
                     (configure h opts) = Done w1" "same_core (configure h opts) w1"
    by blast
  let ?w2 = "set_GrabListenerOn h (opt_val opts o_setGrabListenerOn) w1"
  have core: "same_core (configure h opts) ?w2"
    using same_core_trans [OF w1(2) set_GrabListenerOn_frame] .
  then have "container_node (nodes (self ?w2)) = Some c" "opener_node (nodes (self ?w2)) = None"
    using Some op by (simp_all add: same_core_def)
  then show ?thesis
    using w1(1) by (simp add: constructor_def Let_def addOpenListener_def classList_add_def)
qed

lemma constructor_Done:
  assumes "constructor h opts = Done w"
  shows "\<exists>c opn w1.
           container_node (nodes (self w)) = Some c \<and>
           opener_node (nodes (self w)) = Some opn \<and>
           nodes (self w) = nodes (self (configure h opts)) \<and>
           animationClasses (self w) = animationClasses (self (configure h opts)) \<and>
           useEscapeToClose (self w) = useEscapeToClose (self (configure h opts)) \<and>
           timings (self w) = timings (self (configure h opts)) \<and>
           listeners w =
             [\<lparr>l_site = OnNode opn, l_type = Click, l_handler = OpenClick, l_once = True\<rparr>] \<and>
           timers w = [] \<and> scopes w = [] \<and> uncaught w = [] \<and> clock w = 0 \<and>
           \<not> isAnimating (self w) \<and> \<not> isMoveEventsAdded (self w) \<and>
           \<not> isCloseEventAdded (self w) \<and>
           classList w =
             (initial_classes h)
               (c := insert (hidden_class (animationClasses (self w))) (initial_classes h c)) \<and>
           grabListenerOn (self w1) = GNull \<and>
           nodes (self w1) = nodes (self w) \<and>
           self w = self (set_GrabListenerOn h (opt_val opts o_setGrabListenerOn) w1)"
proof (cases "container_node (nodes (self (configure h opts)))")
  case None
  then show ?thesis using constructor_Threw [of h opts] assms by auto
next
  case (Some c)
  show ?thesis
  proof (cases "opener_node (nodes (self (configure h opts)))")
    case None
    then show ?thesis using constructor_Threw [of h opts] assms by auto
  next
    case op: (Some opn)
    from set_backgroundColor_Some [OF Some]
    obtain w1 where w1: "set_backgroundColor (opt_val opts o_containerBackgroundColor)
                     (configure h opts) = Done w1" "same_core (configure h opts) w1"
        "grabListenerOn (self w1) = grabListenerOn (self (configure h opts))"
      by blast
    let ?w2 = "set_GrabListenerOn h (opt_val opts o_setGrabListenerOn) w1"
    have core: "same_core (configure h opts) ?w2"
      using same_core_trans [OF w1(2) set_GrabListenerOn_frame] .
    have n2: "container_node (nodes (self ?w2)) = Some c" "opener_node (nodes (self ?w2)) = Some opn"
      using core Some op by (simp_all add: same_core_def)
    have eq: "w = addEventListener (OnNode opn) Click OpenClick True
                 (classList_add c (hidden_class (animationClasses (self ?w2))) ?w2)"
      using assms w1(1) n2
      by (simp add: constructor_def Let_def addOpenListener_def classList_add_def)
    have "grabListenerOn (self w1) = GNull" using w1(3) by (simp add: configure_world)
    moreover have "nodes (self w1) = nodes (self w)"
      using w1(2) core by (simp add: eq same_core_def prims)
    moreover have "self w = self ?w2" by (simp add: eq prims)
    ultimately show ?thesis
      using core n2
      by (intro exI [of _ c] exI [of _ opn] exI [of _ w1])
         (simp add: eq same_core_def prims configure_world)
  qed
qed

subsection \<open>Exactly one state class\<close>

lemma keeps_classList_eq:
  "keeps c A w \<Longrightarrow> self w' = self w \<Longrightarrow> classList w' = classList w \<Longrightarrow> keeps c A w'"
  by (simp add: keeps_def)

lemma keeps_flag:
  "keeps c A w \<Longrightarrow> nodes p = nodes (self w) \<Longrightarrow> animationClasses p = animationClasses (self w)
     \<Longrightarrow> keeps c A (w\<lparr>self := p\<rparr>)"
  by (simp add: keeps_def)






lemma keepsr_simps [simp]:
  "keepsr c A (Done w) = keeps c A w"
  "keepsr c A (Threw e w) = keeps c A w"
  by (simp_all add: keepsr_def)





































subsection \<open>Construction returns or throws\<close>

















subsection \<open>The grab target\<close>

lemma dispatch_one:
  "filter (hears s t) (listeners w) = [l] \<Longrightarrow>
     dispatch s t ev w =
       absorb (run_handler (l_handler l) ev
         (w\<lparr>listeners := filter (\<lambda>l. \<not> (hears s t l \<and> l_once l)) (listeners w)\<rparr>))"
  by (simp add: dispatch_def)

lemma elapse_one:
  "0 \<le> d \<Longrightarrow> timers w = [(t, cb)] \<Longrightarrow> t \<le> clock w + d \<Longrightarrow>
     elapse d w = absorb (run_callback cb (w\<lparr>clock := clock w + d, timers := []\<rparr>))"
  by (simp add: elapse_def)

lemma openPopup_idle:
  assumes "\<not> isAnimating (self w)"
    and "html_node (nodes (self w)) = Some hn"
    and "opener_node (nodes (self w)) = Some opn"
    and "container_node (nodes (self w)) = Some c"
  shows "\<exists>w'. openPopup lay w = Done w' \<and>
           self w' = (self w)\<lparr>isAnimating := True\<rparr> \<and>
           listeners w' = listeners w \<and>
           timers w' = enqueue (clock w + max 0 (opening_time (timings (self w))), OpenDone)
                         (timers w) \<and>
           clock w' = clock w \<and> scopes w' = scopes w \<and> uncaught w' = uncaught w"
  using assms by (simp add: openPopup_def Let_def)

lemma openDone_no_forEach:
  assumes "container_node (nodes (self w)) = Some c"
    and "\<not> isCloseEventAdded (self w)" and "\<not> isMoveEventsAdded (self w)"
    and "grabListenerOn (self w) = GNode n \<or> grabListenerOn (self w) = GNull"
  shows "\<exists>w'. openDone w = Threw TypeError w' \<and>
           isAnimating (self w') = isAnimating (self w) \<and>
           isMoveEventsAdded (self w') \<and>
           uncaught w' = uncaught w \<and>
           grab_listeners w' = grab_listeners w"
  using assms
  by (auto simp: openDone_def addCloseListener_def addGrabListener_def Let_def grab_listeners_def)

lemma first_open_with_node:
  assumes c: "constructor h opts = Done w"
    and g: "grabListenerOn (self w) = GNode n"
    and o: "opener_node (nodes (self w)) = Some opn"
    and d: "opening_time (timings (self w)) \<le> d" "0 \<le> d"
  shows "uncaught (run [Dispatch (OnNode opn) Click ev, Elapse d] w) = [TypeError] \<and>
         isAnimating (self (run [Dispatch (OnNode opn) Click ev, Elapse d] w)) \<and>
         grab_listeners (run [Dispatch (OnNode opn) Click ev, Elapse d] w) = []"
proof -
  from constructor_Done [OF c] o obtain c' where
    sh: "container_node (nodes (self w)) = Some c'"
      "html_node (nodes (self w)) = Some (html_root h)"
      "listeners w =
         [\<lparr>l_site = OnNode opn, l_type = Click, l_handler = OpenClick, l_once = True\<rparr>]"
      "timers w = []" "scopes w = []" "uncaught w = []" "clock w = 0"
      "\<not> isAnimating (self w)" "\<not> isMoveEventsAdded (self w)"
      "\<not> isCloseEventAdded (self w)"
    by (auto simp: configure_nodes)
  let ?v = "w\<lparr>listeners := []\<rparr>"
  have d1: "dispatch (OnNode opn) Click ev w = absorb (openPopup (e_layout ev) ?v)"
    using sh(3) by (simp add: dispatch_def hears_def)
  from openPopup_idle [of ?v "html_root h" opn c' "e_layout ev"] sh o
  obtain w1 where w1: "openPopup (e_layout ev) ?v = Done w1"
    "self w1 = (self w)\<lparr>isAnimating := True\<rparr>" "listeners w1 = []"
    "timers w1 = [(max 0 (opening_time (timings (self w))), OpenDone)]"
    "clock w1 = 0" "scopes w1 = []" "uncaught w1 = []"
    by auto
  let ?u = "w1\<lparr>clock := clock w1 + d, timers := []\<rparr>"
  have m: "max 0 (opening_time (timings (self w))) \<le> clock w1 + d" using d w1(5) by simp
  have e1: "elapse d w1 = absorb (openDone ?u)"
    using elapse_one [OF d(2) w1(4) m] by simp
  from openDone_no_forEach [of ?u c' n] sh g w1
  obtain w2 where w2: "openDone ?u = Threw TypeError w2"
    "isAnimating (self w2)" "uncaught w2 = []" "grab_listeners w2 = []"
    by (auto simp: grab_listeners_def)
  have "run [Dispatch (OnNode opn) Click ev, Elapse d] w = w2\<lparr>uncaught := [TypeError]\<rparr>"
    by (simp add: run_def d1 w1(1) e1 w2)
  then show ?thesis using w2 by (simp add: grab_listeners_def)
qed

lemma addGrabListener_returned:
  "returned (addGrabListener w) = (\<exists>ns. grabListenerOn (self w) = GList ns)"
  by (cases "grabListenerOn (self w)") (simp_all add: addGrabListener_def Let_def)

lemma grab_default_from_null:
  "grabListenerOn (self w) = GNull \<Longrightarrow>
     grabListenerOn (self (grab_default w)) =
       (case wrapper_node (nodes (self w)) of None \<Rightarrow> GNull | Some wr \<Rightarrow> GList [wr]) \<and>
     nodes (self (grab_default w)) = nodes (self w)"
  by (simp add: grab_default_def split: option.splits)

lemma usable_when_registered:
  assumes g: "grabListenerOn (self w1) = GNull"
    and r: "\<exists>ns. grabListenerOn (self (set_GrabListenerOn h v w1)) = GList ns"
  shows "grab_option_usable h v (set_GrabListenerOn h v w1)"
proof -
  have dflt: "at_wrapper_default (grab_default u)"
    if "grabListenerOn (self u) = GNull" "\<exists>ns. grabListenerOn (self (grab_default u)) = GList ns"
    for u
    using that grab_default_from_null [of u]
    by (cases "wrapper_node (nodes (self u))") (auto simp: at_wrapper_default_def)
  show ?thesis
  proof (cases v)
    case (NodeV n)
    then show ?thesis using r by (simp add: grab_default_def)
  next
    case (StrV s)
    show ?thesis
    proof (cases "s \<noteq> [] \<and> querySelectorAll h s \<noteq> []")
      case True
      then show ?thesis using StrV by (simp add: grab_option_usable_def)
    next
      case False
      then have "set_GrabListenerOn h v w1 = grab_default w1 \<or>
                 set_GrabListenerOn h v w1 = grab_default
                   (console_error ''Unable to set grab event handlers on passed selector'' w1)"
        using StrV by (auto split: list.splits)
      then show ?thesis
      proof
        assume e: "set_GrabListenerOn h v w1 = grab_default w1"
        with dflt [of w1] g r show ?thesis using StrV by (simp add: grab_option_usable_def)
      next
        assume e: "set_GrabListenerOn h v w1 = grab_default
                   (console_error ''Unable to set grab event handlers on passed selector'' w1)"
        with dflt [of "console_error ''Unable to set grab event handlers on passed selector'' w1"]
          g r show ?thesis using StrV by (simp add: grab_option_usable_def)
      qed
    qed
  next
    case (ArrV xs)
    then show ?thesis by (cases v) (simp_all add: grab_option_usable_def)
  next
    case Undefined
    with dflt [of w1] g r show ?thesis by (simp add: grab_option_usable_def)
  next
    case Null
    with dflt [of w1] g r show ?thesis by (simp add: grab_option_usable_def)
  next
    case (BoolV b)
    with dflt [of w1] dflt [of "console_error ''Grab event handler selector is invalid'' w1"]
      g r show ?thesis by (cases b) (simp_all add: grab_option_usable_def)
  next
    case (NumV x)
    with dflt [of w1] dflt [of "console_error ''Grab event handler selector is invalid'' w1"]
      g r show ?thesis by (cases "x = 0") (simp_all add: grab_option_usable_def)
  next
    case ObjV
    with dflt [of "console_error ''Grab event handler selector is invalid'' w1"]
      g r show ?thesis by (simp add: grab_option_usable_def)
  qed
qed

lemma usable_cong:
  assumes "self w = self w'"
  shows "grab_option_usable h v w = grab_option_usable h v w'"
proof -
  have "at_wrapper_default w = at_wrapper_default w'"
    using assms by (simp add: at_wrapper_default_def split: option.splits)
  then show ?thesis by (cases v) (simp_all add: grab_option_usable_def)
qed

text \<open>
  C10. Take a construction that returns. If the option \<^verbatim>\<open>setGrabListenerOn\<close> is a single
  node, \<^verbatim>\<open>_grabListenerOn\<close> holds that bare node; \<^verbatim>\<open>addGrabListener\<close> cannot return on
  it; and the first click on the opener followed by the opening time ends with one uncaught
  \<^verbatim>\<open>TypeError\<close>, no \<^verbatim>\<open>mousedown\<close>, \<^verbatim>\<open>mouseup\<close> or \<^verbatim>\<open>mousemove\<close> listener
  registered, and \<^verbatim>\<open>_isAnimating\<close> still set. Whatever the option is, if
  \<^verbatim>\<open>addGrabListener\<close> returns, then the option is a selector string that matches an
  element, or a list, or the grab target is the wrapper default.
\<close>

theorem grab_option_single_node:
  assumes "constructor h opts = Done w"
  shows "(opt_val opts o_setGrabListenerOn = NodeV n \<longrightarrow>
            grabListenerOn (self w) = GNode n \<and>
            \<not> returned (addGrabListener w) \<and>
            (\<forall>opn ev d.
               opener_node (nodes (self w)) = Some opn \<longrightarrow>
               opening_time (timings (self w)) \<le> d \<longrightarrow> 0 \<le> d \<longrightarrow>
                 uncaught (run [Dispatch (OnNode opn) Click ev, Elapse d] w) = [TypeError] \<and>
                 isAnimating (self (run [Dispatch (OnNode opn) Click ev, Elapse d] w)) \<and>
                 grab_listeners (run [Dispatch (OnNode opn) Click ev, Elapse d] w) = [])) \<and>
         (returned (addGrabListener w) \<longrightarrow>
            grab_option_usable h (opt_val opts o_setGrabListenerOn) w)"
proof -
  from constructor_Done [OF assms] obtain w1 where
    w1: "grabListenerOn (self w1) = GNull"
      "self w = self (set_GrabListenerOn h (opt_val opts o_setGrabListenerOn) w1)"
    by auto
  have node: "grabListenerOn (self w) = GNode n"
    if "opt_val opts o_setGrabListenerOn = NodeV n"
    using that w1(2) by (simp add: grab_default_def)
  have usable: "grab_option_usable h (opt_val opts o_setGrabListenerOn) w"
    if "returned (addGrabListener w)"
  proof -
    from that have "\<exists>ns. grabListenerOn
        (self (set_GrabListenerOn h (opt_val opts o_setGrabListenerOn) w1)) = GList ns"
      using w1(2) by (simp add: addGrabListener_returned)
    from usable_when_registered [OF w1(1) this] show ?thesis
      using usable_cong [OF w1(2)] by simp
  qed
  show ?thesis
    using node usable first_open_with_node [OF assms]
    by (auto simp: addGrabListener_returned)
qed

theorem grab_option_single_node_witness:
  "constructor demo_host (Some (grab_on (NodeV 3))) =
     Done (world_of (constructor demo_host (Some (grab_on (NodeV 3))))) \<and>
   grabListenerOn (self (world_of (constructor demo_host (Some (grab_on (NodeV 3)))))) =
     GNode 3 \<and>
   uncaught (run [click_opener, Elapse 500]
     (world_of (constructor demo_host (Some (grab_on (NodeV 3)))))) = [TypeError] \<and>
   returned (addGrabListener
     (world_of (constructor demo_host_img (Some (grab_on (StrV ''img'')))))) \<and>
   grab_option_usable demo_host_img (StrV ''img'')
     (world_of (constructor demo_host_img (Some (grab_on (StrV ''img'')))))"
proof -
  let ?w = "world_of (constructor demo_host (Some (grab_on (NodeV 3))))"
  let ?v = "world_of (constructor demo_host_img (Some (grab_on (StrV ''img''))))"
  have "returned (constructor demo_host (Some (grab_on (NodeV 3))))" by code_simp
  then have c: "constructor demo_host (Some (grab_on (NodeV 3))) = Done ?w"
    by (cases "constructor demo_host (Some (grab_on (NodeV 3)))") simp_all
  have "returned (constructor demo_host_img (Some (grab_on (StrV ''img''))))" by code_simp
  then have c': "constructor demo_host_img (Some (grab_on (StrV ''img''))) = Done ?v"
    by (cases "constructor demo_host_img (Some (grab_on (StrV ''img'')))") simp_all
  have o: "opt_val (Some (grab_on (NodeV 3))) o_setGrabListenerOn = NodeV 3"
    by (simp add: opt_val_def grab_on_def)
  have o': "opt_val (Some (grab_on (StrV ''img''))) o_setGrabListenerOn = StrV ''img''"
    by (simp add: opt_val_def grab_on_def)
  have op: "opener_node (nodes (self ?w)) = Some 1" by code_simp
  have t: "opening_time (timings (self ?w)) \<le> 500" by code_simp
  have r: "returned (addGrabListener ?v)" by code_simp
  have e: "click_opener = Dispatch (OnNode 1) Click (demo_event 1 [] 110 50)"
    by (simp add: click_opener_def)
  from grab_option_single_node [OF c, of 3] o op t
  have "grabListenerOn (self ?w) = GNode 3 \<and>
        uncaught (run [click_opener, Elapse 500] ?w) = [TypeError]"
    by (simp add: e)
  moreover from grab_option_single_node [OF c', of 0] o' r
  have "grab_option_usable demo_host_img (StrV ''img'') ?v" by simp
  ultimately show ?thesis using c r by simp
qed

subsection \<open>The click on the container\<close>

lemma classList_replace_self [simp]:
  "classList (classList_replace n a b (w\<lparr>self := p\<rparr>)) = classList (classList_replace n a b w)"
  by (simp add: classList_replace_def)

lemma set_enqueue: "set (enqueue x xs) = insert x (set xs)"
  by (induction xs) auto

lemma closePopup_idle:
  assumes "\<not> isAnimating (self w)"
    and "container_node (nodes (self w)) = Some c"
  shows "\<exists>w'. closePopup w = Done w' \<and>
           self w' = (self w)\<lparr>isAnimating := True\<rparr> \<and>
           classList w' =
             classList (classList_replace c (opened_class (animationClasses (self w)))
                          (closing_class (animationClasses (self w))) w) \<and>
           listeners w' = listeners w \<and>
           timers w' = enqueue (clock w + max 0 (closing_time (timings (self w))), CloseDone)
                         (timers w) \<and>
           clock w' = clock w \<and> scopes w' = scopes w \<and> uncaught w' = uncaught w"
  using assms by (simp add: closePopup_def Let_def)

lemma closePopup_enters_closing:
  assumes "\<not> isAnimating (self w)"
    and "container_node (nodes (self w)) = Some c"
    and "opened_class (animationClasses (self w)) \<in> classList w c"
  shows "\<exists>w'. closePopup w = Done w' \<and>
           closing_class (animationClasses (self w)) \<in> classList w' c \<and>
           isAnimating (self w') \<and>
           (clock w + max 0 (closing_time (timings (self w))), CloseDone) \<in> set (timers w')"
proof -
  from closePopup_idle [OF assms(1,2)] obtain w' where
    w': "closePopup w = Done w'" "self w' = (self w)\<lparr>isAnimating := True\<rparr>"
      "classList w' =
             classList (classList_replace c (opened_class (animationClasses (self w)))
                          (closing_class (animationClasses (self w))) w)"
      "timers w' = enqueue (clock w + max 0 (closing_time (timings (self w))), CloseDone)
                         (timers w)"
    by blast
  have "closing_class (animationClasses (self w)) \<in> classList w' c"
    using assms(3) by (simp add: w'(3) classList_replace_def)
  then show ?thesis using w' by (simp add: set_enqueue)
qed

text \<open>
  C1, as the code has it. Take a popup that is opened and not animating. The click
  listener of the container closes the popup exactly when the target of the event is the
  content node itself: then \<^verbatim>\<open>closePopup\<close> runs, the container gets the closing class,
  \<^verbatim>\<open>_isAnimating\<close> is set and the completion is scheduled. For any other target (the
  container itself, or an element inside the content) the listener returns and the world
  is as before.
\<close>

theorem close_click_target:
  assumes "container_node (nodes (self w)) = Some c"
    and "\<not> isAnimating (self w)"
    and "opened_class (animationClasses (self w)) \<in> classList w c"
  shows "(content_node (nodes (self w)) = Some (e_target ev) \<longrightarrow>
            (\<exists>w'. run_handler CloseClick ev w = Done w' \<and>
               closing_class (animationClasses (self w)) \<in> classList w' c \<and>
               isAnimating (self w') \<and>
               (clock w + max 0 (closing_time (timings (self w))), CloseDone)
                  \<in> set (timers w'))) \<and>
         (content_node (nodes (self w)) \<noteq> Some (e_target ev) \<longrightarrow>
            run_handler CloseClick ev w = Done w)"
  using closePopup_enters_closing [OF assms(2,1,3)]
  by (simp add: close_click_def)

theorem close_click_target_witness:
  "container_node (nodes (self demo_opened)) = Some 2 \<and>
   \<not> isAnimating (self demo_opened) \<and>
   opened_class (animationClasses (self demo_opened)) \<in> classList demo_opened 2 \<and>
   content_node (nodes (self demo_opened)) = Some (e_target (demo_event 4 [] 20 20)) \<and>
   (\<exists>w'. run_handler CloseClick (demo_event 4 [] 20 20) demo_opened = Done w' \<and>
      closing_class (animationClasses (self demo_opened)) \<in> classList w' 2) \<and>
   content_node (nodes (self demo_opened)) \<noteq> Some (e_target (demo_event 2 [] 20 20)) \<and>
   run_handler CloseClick (demo_event 2 [] 20 20) demo_opened = Done demo_opened"
proof -
  have h1: "container_node (nodes (self demo_opened)) = Some 2" by code_simp
  have h2: "\<not> isAnimating (self demo_opened)" by code_simp
  have h3: "opened_class (animationClasses (self demo_opened)) \<in> classList demo_opened 2"
    by code_simp
  have h4: "content_node (nodes (self demo_opened)) = Some (e_target (demo_event 4 [] 20 20))"
    by code_simp
  have h5: "content_node (nodes (self demo_opened)) \<noteq> Some (e_target (demo_event 2 [] 20 20))"
    by code_simp
  from close_click_target [OF h1 h2 h3, of "demo_event 4 [] 20 20"] h4
  have a: "\<exists>w'. run_handler CloseClick (demo_event 4 [] 20 20) demo_opened = Done w' \<and>
      closing_class (animationClasses (self demo_opened)) \<in> classList w' 2"
    by blast
  from close_click_target [OF h1 h2 h3, of "demo_event 2 [] 20 20"] h5
  have b: "run_handler CloseClick (demo_event 2 [] 20 20) demo_opened = Done demo_opened"
    by blast
  from h1 h2 h3 h4 a h5 b show ?thesis by (intro conjI)
qed

text \<open>
  C1, as stated, fails on the sample page once the popup is opened: the click whose target
  is the content node (node 4) puts the container into the closing state, and the click
  whose target is the container itself (node 2, the backdrop) changes nothing.
\<close>

theorem close_click_counterexample:
  "classList demo_opened 2 = {''popup--opened''} \<and>
   content_node (nodes (self demo_opened)) = Some 4 \<and>
   classList (run [click_content] demo_opened) 2 = {''popup--closing''} \<and>
   isAnimating (self (run [click_content] demo_opened)) \<and>
   timers (run [click_content] demo_opened) = [(1000, CloseDone)] \<and>
   classList (run [click_container] demo_opened) 2 = {''popup--opened''} \<and>
   \<not> isAnimating (self (run [click_container] demo_opened)) \<and>
   timers (run [click_container] demo_opened) = []"
  by code_simp

end
